theory Spec2Isabelle
  imports Main "HOL-Library.Sublist"
begin

section \<open>Python values, strings and exceptions\<close>

text \<open>
  The client (\<^verbatim>\<open>sync_client.py\<close>, \<^verbatim>\<open>async_client.py\<close>, \<^verbatim>\<open>base.py\<close>) is glue around
  two HTTP libraries. The embedding keeps every branch of the client's own code and takes
  what the libraries do (the answer to a request, the outcome of \<^verbatim>\<open>response.json()\<close>,
  the text of a status error) as data supplied by the transport.
\<close>

datatype pyval =
    PyNone
  | PyBool bool
  | PyInt int
  | PyStr string
  | PyList "pyval list"
  | PyDict "(string \<times> pyval) list"

text \<open>Python truthiness, as used by \<^verbatim>\<open>if data:\<close>.\<close>

fun truthy_val :: "pyval \<Rightarrow> bool" where
  "truthy_val PyNone = False"
| "truthy_val (PyBool b) = b"
| "truthy_val (PyInt i) = (i \<noteq> 0)"
| "truthy_val (PyStr s) = (s \<noteq> [])"
| "truthy_val (PyList xs) = (xs \<noteq> [])"
| "truthy_val (PyDict kvs) = (kvs \<noteq> [])"

text \<open>
  A payload is a plain value (a dict, or anything else) or an object with a
  \<^verbatim>\<open>model_dump_json\<close> method; \<open>Model v\<close> is such an object whose dump decodes to \<open>v\<close>.
  An object without \<^verbatim>\<open>__bool__\<close> and \<^verbatim>\<open>__len__\<close> is truthy.
\<close>

datatype pydata = Plain pyval | Model pyval

fun truthy_data :: "pydata \<Rightarrow> bool" where
  "truthy_data (Plain v) = truthy_val v"
| "truthy_data (Model v) = True"

text \<open>\<^verbatim>\<open>parse_data\<close> of \<^verbatim>\<open>base.py\<close>: a dict and any other plain value are returned as they
  are, a model is replaced by \<^verbatim>\<open>json.loads(data.model_dump_json())\<close>.\<close>

fun parse_data :: "pydata \<Rightarrow> pyval" where
  "parse_data (Plain v) = v"
| "parse_data (Model v) = v"

text \<open>An argument of type \<^verbatim>\<open>Optional[str]\<close>: \<open>None\<close> is Python's \<^verbatim>\<open>None\<close>. Its truthiness
  (\<^verbatim>\<open>if key:\<close>, \<^verbatim>\<open>if not handler:\<close>) and its rendering inside an f-string.\<close>

fun truthy :: "string option \<Rightarrow> bool" where
  "truthy None = False"
| "truthy (Some s) = (s \<noteq> [])"

fun fmt :: "string option \<Rightarrow> string" where
  "fmt None = ''None''"
| "fmt (Some s) = s"

text \<open>\<^verbatim>\<open>str(n)\<close> for an integer, as the f-strings \<^verbatim>\<open>{delay_seconds}\<close> and
  \<^verbatim>\<open>{response.status_code}\<close> render it.\<close>

definition digit_char :: "nat \<Rightarrow> char" where
  "digit_char n = ''0123456789'' ! (n mod 10)"

fun str_nat :: "nat \<Rightarrow> string" where
  "str_nat n = (if n < 10 then [digit_char n] else str_nat (n div 10) @ [digit_char n])"

declare str_nat.simps [simp del]

definition str_int :: "int \<Rightarrow> string" where
  "str_int i = (if i < 0 then CHR ''-'' # str_nat (nat (- i)) else str_nat (nat i))"

text \<open>\<^verbatim>\<open>s.lower()\<close> on ASCII letters, and \<^verbatim>\<open>sub in s\<close> for strings.\<close>

definition lower_char :: "char \<Rightarrow> char" where
  "lower_char c =
     (case map_of (zip ''ABCDEFGHIJKLMNOPQRSTUVWXYZ'' ''abcdefghijklmnopqrstuvwxyz'') c of
        None \<Rightarrow> c
      | Some l \<Rightarrow> l)"

definition lower :: "string \<Rightarrow> string" where
  "lower s = map lower_char s"

fun contains :: "string \<Rightarrow> string \<Rightarrow> bool" where
  "contains sub [] = (sub = [])"
| "contains sub (c # cs) = (prefix sub (c # cs) \<or> contains sub cs)"

text \<open>
  The exception classes the handlers of the client tell apart. \<open>HTTPError s m\<close> is
  \<^verbatim>\<open>requests.exceptions.HTTPError\<close> with \<^verbatim>\<open>e.response.status_code = s\<close>;
  \<open>RetryError\<close> is the \<^verbatim>\<open>requests.exceptions.RetryError\<close> of exhausted retries;
  \<open>ClientResponseError s m\<close> is aiohttp's, with \<^verbatim>\<open>e.status = s\<close> (its subclass
  \<^verbatim>\<open>ContentTypeError\<close> included); \<open>RequestException\<close> and \<open>ClientError\<close> stand for the
  other members of the two families (connection errors, timeouts), which carry no status.
  \<open>JSONDecodeError\<close> and \<open>UnicodeDecodeError\<close> are the built-in subclasses of
  \<^verbatim>\<open>ValueError\<close>.
\<close>

datatype exn =
    ValueError string
  | JSONDecodeError string
  | UnicodeDecodeError string
  | RequestsJSONDecodeError string
  | HTTPError nat string
  | RetryError string
  | RequestException string
  | ClientResponseError nat string
  | ClientPayloadError string
  | ClientError string
  | RuntimeError string
  | AttributeError string
  | TerminalError string
  | OtherException string

fun str_exn :: "exn \<Rightarrow> string" where
  "str_exn (ValueError m) = m"
| "str_exn (JSONDecodeError m) = m"
| "str_exn (UnicodeDecodeError m) = m"
| "str_exn (RetryError m) = m"
| "str_exn (RequestsJSONDecodeError m) = m"
| "str_exn (HTTPError s m) = m"
| "str_exn (RequestException m) = m"
| "str_exn (ClientResponseError s m) = m"
| "str_exn (ClientPayloadError m) = m"
| "str_exn (ClientError m) = m"
| "str_exn (RuntimeError m) = m"
| "str_exn (AttributeError m) = m"
| "str_exn (TerminalError m) = m"
| "str_exn (OtherException m) = m"

text \<open>\<^verbatim>\<open>isinstance\<close> against the classes named in the \<^verbatim>\<open>except\<close> clauses.\<close>

fun is_RequestException :: "exn \<Rightarrow> bool" where
  "is_RequestException (RequestsJSONDecodeError m) = True"
| "is_RequestException (HTTPError s m) = True"
| "is_RequestException (RetryError m) = True"
| "is_RequestException (RequestException m) = True"
| "is_RequestException e = False"

fun is_HTTPError :: "exn \<Rightarrow> bool" where
  "is_HTTPError (HTTPError s m) = True"
| "is_HTTPError e = False"

fun is_ClientError :: "exn \<Rightarrow> bool" where
  "is_ClientError (ClientResponseError s m) = True"
| "is_ClientError (ClientPayloadError m) = True"
| "is_ClientError (ClientError m) = True"
| "is_ClientError e = False"

fun is_ValueError :: "exn \<Rightarrow> bool" where
  "is_ValueError (ValueError m) = True"
| "is_ValueError (JSONDecodeError m) = True"
| "is_ValueError (UnicodeDecodeError m) = True"
| "is_ValueError (RequestsJSONDecodeError m) = True"
| "is_ValueError e = False"

fun is_ClientPayloadError :: "exn \<Rightarrow> bool" where
  "is_ClientPayloadError (ClientPayloadError m) = True"
| "is_ClientPayloadError e = False"

fun is_RuntimeError :: "exn \<Rightarrow> bool" where
  "is_RuntimeError (RuntimeError m) = True"
| "is_RuntimeError e = False"

fun is_TerminalError :: "exn \<Rightarrow> bool" where
  "is_TerminalError (TerminalError m) = True"
| "is_TerminalError e = False"

section \<open>Requests, responses and the transport\<close>

datatype http_method = GET | POST | DELETE

record request =
  req_method :: http_method
  req_url :: string
  req_headers :: "(string \<times> string) list"
  req_json :: "pyval option"

text \<open>
  A response as the two libraries present it: the status and its reason phrase, the URL of
  the request as the library reports it (\<^verbatim>\<open>response.url\<close>,
  \<^verbatim>\<open>request_info.real_url\<close>), the \<^verbatim>\<open>Content-Type\<close> header (if any), whether a
  \<^verbatim>\<open>Retry-After\<close> header is present, the body as text, and what the JSON parser
  (\<^verbatim>\<open>json.loads\<close>) does on that text. aiohttp reads and decodes the body only when
  \<^verbatim>\<open>json()\<close> or \<^verbatim>\<open>text()\<close> is awaited: \<open>read_error\<close> is the error of an incomplete read
  (a \<^verbatim>\<open>ClientPayloadError\<close>, say), \<open>decode_error\<close> the text of the \<^verbatim>\<open>UnicodeDecodeError\<close>
  of a body that is not valid in the encoding of the response. requests reads the body
  inside the request and never fails to decode it.
\<close>

record response =
  status_code :: nat
  reason :: string
  response_url :: string
  content_type :: "string option"
  retry_after :: bool
  read_error :: "exn option"
  decode_error :: "string option"
  body_text :: string
  body_json :: "exn + pyval"

text \<open>A session answers a request with a response or raises.\<close>

type_synonym transport = "request \<Rightarrow> exn + response"

text \<open>The result of an operation: what it returns or raises, and the requests it issued.\<close>

type_synonym outcome = "(exn + pyval) \<times> request list"

subsection \<open>What the libraries raise on a status\<close>

text \<open>\<^verbatim>\<open>repr\<close> of a string that holds no quote, backslash or control character.\<close>

definition py_repr :: "string \<Rightarrow> string" where
  "py_repr s = CHR 0x27 # s @ [CHR 0x27]"

text \<open>
  \<^verbatim>\<open>Response.raise_for_status\<close> of requests raises for 4xx and 5xx, with the message
  \<^verbatim>\<open>{status} Client Error: {reason} for url: {url}\<close> (\<^verbatim>\<open>Server Error\<close> from 500 on).
  aiohttp's raises when \<^verbatim>\<open>status >= 400\<close>; the text of its \<^verbatim>\<open>ClientResponseError\<close> is
  \<^verbatim>\<open>{status}, message={message!r}, url={url!r}\<close>.
\<close>

definition http_error_msg :: "response \<Rightarrow> string" where
  "http_error_msg r =
     str_nat (status_code r)
       @ (if status_code r < 500 then '' Client Error: '' else '' Server Error: '')
       @ reason r @ '' for url: '' @ response_url r"

definition aio_error_msg :: "nat \<Rightarrow> string \<Rightarrow> string \<Rightarrow> string" where
  "aio_error_msg s message u =
     str_nat s @ '', message='' @ py_repr message @ '', url='' @ py_repr u"

definition raise_for_status :: "response \<Rightarrow> exn + response" where
  "raise_for_status r =
     (if 400 \<le> status_code r \<and> status_code r < 600
      then Inl (HTTPError (status_code r) (http_error_msg r)) else Inr r)"

definition aio_raise_for_status :: "response \<Rightarrow> exn + response" where
  "aio_raise_for_status r =
     (if 400 \<le> status_code r
      then Inl (ClientResponseError (status_code r)
                  (aio_error_msg (status_code r) (reason r) (response_url r)))
      else Inr r)"

subsection \<open>The session of \<^verbatim>\<open>_create_session\<close> (\<^verbatim>\<open>base.py\<close>)\<close>

text \<open>
  \<^verbatim>\<open>_create_session\<close> mounts an adapter with
  \<^verbatim>\<open>Retry(total=3, backoff_factor=1, status_forcelist=[429, 500, 502, 503, 504])\<close>.
  urllib3 retries a request whose method is idempotent (of the three methods used here GET
  and DELETE, not POST) when the status is in the list, or when the response has a
  \<^verbatim>\<open>Retry-After\<close> header and status 413, 429 or 503; once the retries are used up it
  raises, and requests turns that into a \<^verbatim>\<open>RetryError\<close> with the text
  \<^verbatim>\<open>{pool}: Max retries exceeded with url: {target} (Caused by ResponseError('too many {status} error responses'))\<close>.
\<close>

definition status_forcelist :: "nat list" where
  "status_forcelist = [429, 500, 502, 503, 504]"

definition retry_after_status_codes :: "nat list" where
  "retry_after_status_codes = [413, 429, 503]"

fun method_retryable :: "http_method \<Rightarrow> bool" where
  "method_retryable GET = True"
| "method_retryable DELETE = True"
| "method_retryable POST = False"

definition is_retry :: "http_method \<Rightarrow> response \<Rightarrow> bool" where
  "is_retry m r =
     (method_retryable m \<and>
      (status_code r \<in> set status_forcelist \<or>
       retry_after r \<and> status_code r \<in> set retry_after_status_codes))"

text \<open>The parts of a URL that the text names: what follows \<^verbatim>\<open>scheme://\<close>, the request
  target (path and query, \<^verbatim>\<open>/\<close> when empty), and the connection pool of the host.\<close>

fun after_scheme :: "string \<Rightarrow> string" where
  "after_scheme [] = []"
| "after_scheme (c # cs) =
     (if prefix ''://'' (c # cs) then drop 3 (c # cs) else after_scheme cs)"

definition url_target :: "string \<Rightarrow> string" where
  "url_target u =
     (let t = dropWhile (\<lambda>c. c \<noteq> CHR ''/'') (after_scheme u) in if t = [] then ''/'' else t)"

definition pool_repr :: "string \<Rightarrow> string" where
  "pool_repr u =
     (let secure = prefix ''https://'' u;
          authority = takeWhile (\<lambda>c. c \<noteq> CHR ''/'') (after_scheme u);
          host = takeWhile (\<lambda>c. c \<noteq> CHR '':'') authority;
          port = drop 1 (dropWhile (\<lambda>c. c \<noteq> CHR '':'') authority)
      in (if secure then ''HTTPSConnectionPool'' else ''HTTPConnectionPool'')
           @ ''(host='' @ py_repr host @ '', port=''
           @ (if port \<noteq> [] then port else if secure then ''443'' else ''80'') @ '')'')"

definition retry_error_msg :: "string \<Rightarrow> nat \<Rightarrow> string" where
  "retry_error_msg u s =
     pool_repr u @ '': Max retries exceeded with url: '' @ url_target u
       @ '' (Caused by ResponseError(''
       @ py_repr (''too many '' @ str_nat s @ '' error responses'') @ ''))''"

text \<open>
  The session over a server that gives every attempt of a request the same answer: a
  response that is retried never reaches the client, the \<^verbatim>\<open>RetryError\<close> does; any other
  response, and any error of the connection, is handed on. The retries are the
  transport's; the client has made one request.
\<close>

definition create_session :: "transport \<Rightarrow> transport" where
  "create_session server q =
     (case server q of
        Inl e \<Rightarrow> Inl e
      | Inr r \<Rightarrow>
          if is_retry (req_method q) r
          then Inl (RetryError (retry_error_msg (response_url r) (status_code r)))
          else Inr r)"

text \<open>Sequencing of a step that may raise, and a \<^verbatim>\<open>try\<close> block with its handler.\<close>

definition and_then :: "exn + 'a \<Rightarrow> ('a \<Rightarrow> exn + 'b) \<Rightarrow> exn + 'b" where
  "and_then x f = (case x of Inl e \<Rightarrow> Inl e | Inr v \<Rightarrow> f v)"

definition try_except :: "exn + 'a \<Rightarrow> (exn \<Rightarrow> exn + 'a) \<Rightarrow> exn + 'a" where
  "try_except x h = (case x of Inl e \<Rightarrow> h e | Inr v \<Rightarrow> Inr v)"

section \<open>The synchronous client (\<^verbatim>\<open>sync_client.py\<close>)\<close>

text \<open>
  \<open>base_url\<close> is \<^verbatim>\<open>self._base_url\<close>; \<open>session\<close> is \<^verbatim>\<open>self._session\<close>, which
  \<^verbatim>\<open>RestateBase.__init__\<close> sets to \<^verbatim>\<open>None\<close> under a test harness and to the session of
  \<^verbatim>\<open>_create_session\<close> (\<open>Some (create_session server)\<close>) otherwise. The operations are
  defined for any session.
\<close>

record client =
  base_url :: string
  session :: "transport option"

text \<open>\<^verbatim>\<open>Response.json\<close> of requests parses the text and raises its own
  \<^verbatim>\<open>JSONDecodeError\<close>, a \<^verbatim>\<open>RequestException\<close>, in place of the parser's.\<close>

definition requests_json :: "response \<Rightarrow> exn + pyval" where
  "requests_json r =
     (case body_json r of
        Inl (JSONDecodeError m) \<Rightarrow> Inl (RequestsJSONDecodeError m)
      | Inl e \<Rightarrow> Inl e
      | Inr v \<Rightarrow> Inr v)"

text \<open>The decoding shared by the synchronous operations:
  \<^verbatim>\<open>if response.text: return response.json() else: return {}\<close>.\<close>

definition decode_body :: "response \<Rightarrow> exn + pyval" where
  "decode_body r = (if body_text r \<noteq> [] then requests_json r else Inr (PyDict []))"

text \<open>\<^verbatim>\<open>except requests.RequestException as e: raise TerminalError(str(e)) from e\<close>
  (the sends), and the handler that logs and re-raises (attach, output).\<close>

definition send_handler :: "exn \<Rightarrow> exn + pyval" where
  "send_handler e = (if is_RequestException e then Inl (TerminalError (str_exn e)) else Inl e)"

definition reraise_handler :: "exn \<Rightarrow> exn + pyval" where
  "reraise_handler e = (if is_RequestException e then Inl e else Inl e)"

definition send_headers :: "string option \<Rightarrow> (string \<times> string) list" where
  "send_headers idempotency_key =
     (let headers = [(''Content-Type'', ''application/json'')]
      in if truthy idempotency_key
         then headers @ [(''idempotency-key'', fmt idempotency_key)] else headers)"

definition service_send ::
  "client \<Rightarrow> string \<Rightarrow> string \<Rightarrow> pydata \<Rightarrow> int \<Rightarrow> string option \<Rightarrow> outcome" where
  "service_send c service_name handler payload delay_seconds idempotency_key =
     (case session c of
        None \<Rightarrow> (Inr PyNone, [])
      | Some sess \<Rightarrow>
          let url = base_url c @ ''/'' @ service_name @ ''/'' @ handler @ ''/send'';
              url = (if delay_seconds > 0
                     then url @ ''?delay='' @ str_int delay_seconds @ ''s'' else url);
              req = \<lparr>req_method = POST, req_url = url,
                     req_headers = send_headers idempotency_key,
                     req_json = Some (parse_data payload)\<rparr>
          in (try_except
                (and_then (and_then (sess req) raise_for_status) (\<lambda>r. Inr PyNone))
                send_handler,
              [req]))"

definition object_send ::
  "client \<Rightarrow> string \<Rightarrow> string \<Rightarrow> string \<Rightarrow> pydata \<Rightarrow> int \<Rightarrow> string option \<Rightarrow> outcome" where
  "object_send c service_name handler key payload delay_seconds idempotency_key =
     (case session c of
        None \<Rightarrow> (Inr PyNone, [])
      | Some sess \<Rightarrow>
          let url = base_url c @ ''/'' @ service_name @ ''/'' @ key @ ''/'' @ handler @ ''/send'';
              url = (if delay_seconds > 0
                     then url @ ''?delay='' @ str_int delay_seconds @ ''s'' else url);
              req = \<lparr>req_method = POST, req_url = url,
                     req_headers = send_headers idempotency_key,
                     req_json = Some (parse_data payload)\<rparr>
          in (try_except
                (and_then (and_then (sess req) raise_for_status) (\<lambda>r. Inr PyNone))
                send_handler,
              [req]))"

definition generic_send ::
  "client \<Rightarrow> string \<Rightarrow> string \<Rightarrow> pydata \<Rightarrow> string option \<Rightarrow> int \<Rightarrow> string option \<Rightarrow> outcome" where
  "generic_send c service_name handler payload key delay_seconds idempotency_key =
     (if truthy key
      then object_send c service_name handler (fmt key) payload delay_seconds idempotency_key
      else service_send c service_name handler payload delay_seconds idempotency_key)"

definition service_attach ::
  "client \<Rightarrow> string option \<Rightarrow> string option \<Rightarrow> string option \<Rightarrow> outcome" where
  "service_attach c service_name handler idempotency_key =
     (case session c of
        None \<Rightarrow> (Inr PyNone, [])
      | Some sess \<Rightarrow>
          if \<not> truthy service_name then (Inl (ValueError ''Service name is required''), [])
          else if \<not> truthy handler then (Inl (ValueError ''Handler is required''), [])
          else if \<not> truthy idempotency_key
            then (Inl (ValueError ''Idempotency key is required''), [])
          else
            let url = base_url c @ ''/restate/invocation/'' @ fmt service_name @ ''/''
                        @ fmt handler @ ''/'' @ fmt idempotency_key @ ''/attach'';
                req = \<lparr>req_method = GET, req_url = url, req_headers = [], req_json = None\<rparr>
            in (try_except
                  (and_then (and_then (sess req) raise_for_status) decode_body)
                  reraise_handler,
                [req]))"

definition object_attach ::
  "client \<Rightarrow> string option \<Rightarrow> string option \<Rightarrow> string option \<Rightarrow> string option \<Rightarrow> outcome" where
  "object_attach c service_name handler key idempotency_key =
     (case session c of
        None \<Rightarrow> (Inr PyNone, [])
      | Some sess \<Rightarrow>
          if \<not> truthy service_name then (Inl (ValueError ''Service name is required''), [])
          else if \<not> truthy handler then (Inl (ValueError ''Handler is required''), [])
          else if \<not> truthy key then (Inl (ValueError ''Key is required''), [])
          else if \<not> truthy idempotency_key
            then (Inl (ValueError ''Idempotency key is required''), [])
          else
            let url = base_url c @ ''/restate/invocation/'' @ fmt service_name @ ''/''
                        @ fmt key @ ''/'' @ fmt handler @ ''/'' @ fmt idempotency_key
                        @ ''/attach'';
                req = \<lparr>req_method = GET, req_url = url, req_headers = [], req_json = None\<rparr>
            in (try_except
                  (and_then (and_then (sess req) raise_for_status) decode_body)
                  reraise_handler,
                [req]))"

definition generic_attach ::
  "client \<Rightarrow> string option \<Rightarrow> string option \<Rightarrow> string option \<Rightarrow> string option \<Rightarrow> outcome" where
  "generic_attach c service_name handler idempotency_key key =
     (if truthy key then object_attach c service_name handler key idempotency_key
      else service_attach c service_name handler idempotency_key)"

text \<open>The output operations decode without calling \<^verbatim>\<open>raise_for_status\<close>.\<close>

definition service_output ::
  "client \<Rightarrow> string option \<Rightarrow> string option \<Rightarrow> string option \<Rightarrow> outcome" where
  "service_output c service_name handler idempotency_key =
     (case session c of
        None \<Rightarrow> (Inr PyNone, [])
      | Some sess \<Rightarrow>
          if \<not> truthy service_name then (Inl (ValueError ''Service name is required''), [])
          else if \<not> truthy handler then (Inl (ValueError ''Handler is required''), [])
          else if \<not> truthy idempotency_key
            then (Inl (ValueError ''Idempotency key is required''), [])
          else
            let url = base_url c @ ''/restate/invocation/'' @ fmt service_name @ ''/''
                        @ fmt handler @ ''/'' @ fmt idempotency_key @ ''/output'';
                req = \<lparr>req_method = GET, req_url = url, req_headers = [], req_json = None\<rparr>
            in (try_except (and_then (sess req) decode_body) reraise_handler, [req]))"

definition object_output ::
  "client \<Rightarrow> string option \<Rightarrow> string option \<Rightarrow> string option \<Rightarrow> string option \<Rightarrow> outcome" where
  "object_output c service_name handler key idempotency_key =
     (case session c of
        None \<Rightarrow> (Inr PyNone, [])
      | Some sess \<Rightarrow>
          if \<not> truthy service_name then (Inl (ValueError ''Service name is required''), [])
          else if \<not> truthy handler then (Inl (ValueError ''Handler is required''), [])
          else if \<not> truthy key then (Inl (ValueError ''Key is required''), [])
          else if \<not> truthy idempotency_key
            then (Inl (ValueError ''Idempotency key is required''), [])
          else
            let url = base_url c @ ''/restate/invocation/'' @ fmt service_name @ ''/''
                        @ fmt key @ ''/'' @ fmt handler @ ''/'' @ fmt idempotency_key
                        @ ''/output'';
                req = \<lparr>req_method = GET, req_url = url, req_headers = [], req_json = None\<rparr>
            in (try_except (and_then (sess req) decode_body) reraise_handler, [req]))"

definition generic_output ::
  "client \<Rightarrow> string option \<Rightarrow> string option \<Rightarrow> string option \<Rightarrow> string option \<Rightarrow> outcome" where
  "generic_output c service_name handler idempotency_key key =
     (if truthy key then object_output c service_name handler key idempotency_key
      else service_output c service_name handler idempotency_key)"

text \<open>
  \<^verbatim>\<open>delete_invocation\<close> has no check of the session: on \<^verbatim>\<open>None\<close> the attribute access
  \<^verbatim>\<open>self._session.delete\<close> raises \<^verbatim>\<open>AttributeError\<close>, which neither handler catches.
  The first handler returns \<^verbatim>\<open>None\<close> for an \<^verbatim>\<open>HTTPError\<close> of status 404 and re-raises
  any other; the second logs and re-raises.
\<close>

definition delete_handler :: "exn \<Rightarrow> exn + pyval" where
  "delete_handler e =
     (case e of
        HTTPError s m \<Rightarrow> (if s = 404 then Inr PyNone else Inl e)
      | _ \<Rightarrow> (if is_RequestException e then Inl e else Inl e))"

definition delete_invocation :: "client \<Rightarrow> string \<Rightarrow> outcome" where
  "delete_invocation c invocation_id =
     (let url = base_url c @ ''/invocation/'' @ invocation_id;
          req = \<lparr>req_method = DELETE, req_url = url, req_headers = [], req_json = None\<rparr>
      in case session c of
           None \<Rightarrow>
             (delete_handler
                (AttributeError
                   (py_repr ''NoneType'' @ '' object has no attribute '' @ py_repr ''delete'')),
              [])
         | Some sess \<Rightarrow>
             (try_except
                (and_then (and_then (sess req) raise_for_status) decode_body)
                delete_handler,
              [req]))"

subsection \<open>The synchronous service proxy\<close>

text \<open>A \<^verbatim>\<open>RestateService\<close> adds the field \<^verbatim>\<open>self._url\<close>, which every dynamic call
  overwrites before \<^verbatim>\<open>_request\<close> reads it.\<close>

record service = client +
  url :: string

text \<open>\<^verbatim>\<open>_request\<close>: \<open>Inr None\<close> is the early \<^verbatim>\<open>return None\<close> on an absent session.\<close>

definition service_request :: "service \<Rightarrow> pydata \<Rightarrow> (exn + response option) \<times> request list" where
  "service_request s data =
     (case session s of
        None \<Rightarrow> (Inr None, [])
      | Some sess \<Rightarrow>
          let req = (if truthy_data data
                     then \<lparr>req_method = POST, req_url = url s,
                           req_headers = [(''Content-Type'', ''application/json'')],
                           req_json = Some (parse_data data)\<rparr>
                     else \<lparr>req_method = GET, req_url = url s, req_headers = [],
                           req_json = None\<rparr>)
          in (and_then (sess req)
                (\<lambda>r. if status_code r \<noteq> 200
                     then Inl (RequestException (''Request failed: '' @ str_nat (status_code r)))
                     else Inr (Some r)),
              [req]))"

text \<open>\<^verbatim>\<open>__getattr__(name)\<close> returns \<^verbatim>\<open>_get_handler\<close>; this is the call
  \<^verbatim>\<open>_get_handler(data, key)\<close>, with \<open>Plain PyNone\<close> for an omitted payload.\<close>

definition get_handler :: "service \<Rightarrow> string \<Rightarrow> pydata \<Rightarrow> string option \<Rightarrow> outcome" where
  "get_handler s name data key =
     (let s' = (if truthy key
                then s\<lparr>url := base_url s @ ''/'' @ fmt key @ ''/'' @ name\<rparr>
                else s\<lparr>url := base_url s @ ''/'' @ name\<rparr>);
          rq = service_request s' data
      in (and_then (fst rq)
            (\<lambda>resp. case resp of
                 None \<Rightarrow>
                   Inl (AttributeError
                          (py_repr ''NoneType'' @ '' object has no attribute ''
                             @ py_repr ''text''))
               | Some r \<Rightarrow> decode_body r),
          snd rq))"

section \<open>The asynchronous client (\<^verbatim>\<open>async_client.py\<close>)\<close>

text \<open>
  \<open>create_async_session\<close> is what \<^verbatim>\<open>self._create_async_session()\<close> does when an
  operation calls it: it returns the pooled \<^verbatim>\<open>aiohttp.ClientSession\<close> (\<open>Inr\<close>), or raises
  the \<^verbatim>\<open>RuntimeError\<close> that the handlers of the client anticipate, with the given text
  (\<open>Inl\<close>).
\<close>

record async_client =
  async_base_url :: string
  create_async_session :: "string + transport"

text \<open>
  The three handlers shared by the asynchronous operations other than delete:
  \<^verbatim>\<open>except aiohttp.ClientError as e: raise TerminalError(str(e))\<close>,
  \<^verbatim>\<open>except RuntimeError: raise TerminalError("Failed to create async session")\<close>,
  \<^verbatim>\<open>except Exception as e: raise TerminalError(str(e))\<close>.
\<close>

definition async_handlers :: "exn \<Rightarrow> exn + pyval" where
  "async_handlers e =
     (if is_ClientError e then Inl (TerminalError (str_exn e))
      else if is_RuntimeError e then Inl (TerminalError ''Failed to create async session'')
      else Inl (TerminalError (str_exn e)))"

text \<open>\<^verbatim>\<open>response.headers.get('Content-Type', '').lower()\<close> and the test
  \<^verbatim>\<open>'application/json' in content_type\<close>.\<close>

definition is_json_response :: "response \<Rightarrow> bool" where
  "is_json_response r =
     contains ''application/json''
       (lower (case content_type r of None \<Rightarrow> [] | Some ct \<Rightarrow> ct))"

text \<open>
  \<^verbatim>\<open>await response.text()\<close> of aiohttp reads the body and decodes it strictly.
\<close>

definition aio_text :: "response \<Rightarrow> exn + string" where
  "aio_text r =
     (case read_error r of
        Some e \<Rightarrow> Inl e
      | None \<Rightarrow>
          (case decode_error r of
             Some m \<Rightarrow> Inl (UnicodeDecodeError m)
           | None \<Rightarrow> Inr (body_text r)))"

text \<open>
  \<^verbatim>\<open>await response.json()\<close> of aiohttp reads the body; raises \<^verbatim>\<open>ContentTypeError\<close> (a
  \<^verbatim>\<open>ClientResponseError\<close>) unless the lower-cased \<^verbatim>\<open>Content-Type\<close> header matches
  \<^verbatim>\<open>^application/(?:[\w.+-]+?\+)?json\<close> at its start; returns \<^verbatim>\<open>None\<close> for a body of
  white space only; then decodes the body and parses it.
\<close>

definition re_word :: "char \<Rightarrow> bool" where
  "re_word c =
     (c \<in> set ''abcdefghijklmnopqrstuvwxyzABCDEFGHIJKLMNOPQRSTUVWXYZ0123456789_.+-'')"

fun plus_json :: "string \<Rightarrow> bool" where
  "plus_json [] = False"
| "plus_json (c # cs) = (re_word c \<and> (prefix ''+json'' cs \<or> plus_json cs))"

definition json_re_match :: "string \<Rightarrow> bool" where
  "json_re_match s =
     (prefix ''application/'' s \<and>
      (prefix ''json'' (drop 12 s) \<or> plus_json (drop 12 s)))"

definition blank :: "string \<Rightarrow> bool" where
  "blank s = list_all (\<lambda>c. c \<in> set [CHR 0x20, CHR 0x09, CHR 0x0A, CHR 0x0D, CHR 0x0B, CHR 0x0C]) s"

definition aio_json :: "response \<Rightarrow> exn + pyval" where
  "aio_json r =
     (case read_error r of
        Some e \<Rightarrow> Inl e
      | None \<Rightarrow>
          let ctype = lower (case content_type r of None \<Rightarrow> [] | Some ct \<Rightarrow> ct)
          in if \<not> json_re_match ctype
             then Inl (ClientResponseError (status_code r)
                         (aio_error_msg (status_code r)
                            (''Attempt to decode JSON with unexpected mimetype: '' @ ctype)
                            (response_url r)))
             else if blank (body_text r) then Inr PyNone
             else (case decode_error r of
                     Some m \<Rightarrow> Inl (UnicodeDecodeError m)
                   | None \<Rightarrow> body_json r))"

text \<open>\<^verbatim>\<open>try: return await response.json()
  except (aiohttp.ClientPayloadError, ValueError): return await response.text()\<close>\<close>

definition json_or_text :: "response \<Rightarrow> exn + pyval" where
  "json_or_text r =
     try_except (aio_json r)
       (\<lambda>e. if is_ClientPayloadError e \<or> is_ValueError e
            then and_then (aio_text r) (\<lambda>s. Inr (PyStr s))
            else Inl e)"

text \<open>The decoding of the dynamic calls and of delete (the text as it is on the non-JSON
  path), and of attach and output (\<^verbatim>\<open>text if text else {}\<close>).\<close>

definition async_decode_text :: "response \<Rightarrow> exn + pyval" where
  "async_decode_text r =
     (if is_json_response r then json_or_text r
      else and_then (aio_text r) (\<lambda>s. Inr (PyStr s)))"

definition async_decode_body :: "response \<Rightarrow> exn + pyval" where
  "async_decode_body r =
     (if is_json_response r then json_or_text r
      else and_then (aio_text r) (\<lambda>s. if s \<noteq> [] then Inr (PyStr s) else Inr (PyDict [])))"

definition async_service_send ::
  "async_client \<Rightarrow> string \<Rightarrow> string \<Rightarrow> pydata \<Rightarrow> int \<Rightarrow> string option \<Rightarrow> outcome" where
  "async_service_send c service_name handler payload delay_seconds idempotency_key =
     (case create_async_session c of
        Inl m \<Rightarrow> (async_handlers (RuntimeError m), [])
      | Inr sess \<Rightarrow>
          let url = async_base_url c @ ''/'' @ service_name @ ''/'' @ handler @ ''/send'';
              url = (if delay_seconds > 0
                     then url @ ''?delay='' @ str_int delay_seconds @ ''s'' else url);
              req = \<lparr>req_method = POST, req_url = url,
                     req_headers = send_headers idempotency_key,
                     req_json = Some (parse_data payload)\<rparr>
          in (try_except
                (and_then (and_then (sess req) aio_raise_for_status) (\<lambda>r. Inr PyNone))
                async_handlers,
              [req]))"

definition async_object_send ::
  "async_client \<Rightarrow> string \<Rightarrow> string \<Rightarrow> string \<Rightarrow> pydata \<Rightarrow> int \<Rightarrow> string option \<Rightarrow> outcome"
  where
  "async_object_send c service_name handler key payload delay_seconds idempotency_key =
     (case create_async_session c of
        Inl m \<Rightarrow> (async_handlers (RuntimeError m), [])
      | Inr sess \<Rightarrow>
          let url = async_base_url c @ ''/'' @ service_name @ ''/'' @ key @ ''/'' @ handler
                      @ ''/send'';
              url = (if delay_seconds > 0
                     then url @ ''?delay='' @ str_int delay_seconds @ ''s'' else url);
              req = \<lparr>req_method = POST, req_url = url,
                     req_headers = send_headers idempotency_key,
                     req_json = Some (parse_data payload)\<rparr>
          in (try_except
                (and_then (and_then (sess req) aio_raise_for_status) (\<lambda>r. Inr PyNone))
                async_handlers,
              [req]))"

definition async_generic_send ::
  "async_client \<Rightarrow> string \<Rightarrow> string \<Rightarrow> pydata \<Rightarrow> string option \<Rightarrow> int \<Rightarrow> string option \<Rightarrow> outcome"
  where
  "async_generic_send c service_name handler payload key delay_seconds idempotency_key =
     (if truthy key
      then async_object_send c service_name handler (fmt key) payload delay_seconds
             idempotency_key
      else async_service_send c service_name handler payload delay_seconds idempotency_key)"

text \<open>In attach and output the session is created before the \<^verbatim>\<open>try\<close>, so its
  \<^verbatim>\<open>RuntimeError\<close> is not translated, and the validation follows it.\<close>

definition async_service_attach ::
  "async_client \<Rightarrow> string option \<Rightarrow> string option \<Rightarrow> string option \<Rightarrow> outcome" where
  "async_service_attach c service_name handler idempotency_key =
     (case create_async_session c of
        Inl m \<Rightarrow> (Inl (RuntimeError m), [])
      | Inr sess \<Rightarrow>
          if \<not> truthy service_name then (Inl (ValueError ''Service name is required''), [])
          else if \<not> truthy handler then (Inl (ValueError ''Handler is required''), [])
          else if \<not> truthy idempotency_key
            then (Inl (ValueError ''Idempotency key is required''), [])
          else
            let url = async_base_url c @ ''/restate/invocation/'' @ fmt service_name @ ''/''
                        @ fmt handler @ ''/'' @ fmt idempotency_key @ ''/attach'';
                req = \<lparr>req_method = GET, req_url = url, req_headers = [], req_json = None\<rparr>
            in (try_except
                  (and_then (and_then (sess req) aio_raise_for_status) async_decode_body)
                  async_handlers,
                [req]))"

definition async_object_attach ::
  "async_client \<Rightarrow> string option \<Rightarrow> string option \<Rightarrow> string option \<Rightarrow> string option \<Rightarrow> outcome"
  where
  "async_object_attach c service_name handler key idempotency_key =
     (case create_async_session c of
        Inl m \<Rightarrow> (Inl (RuntimeError m), [])
      | Inr sess \<Rightarrow>
          if \<not> truthy service_name then (Inl (ValueError ''Service name is required''), [])
          else if \<not> truthy handler then (Inl (ValueError ''Handler is required''), [])
          else if \<not> truthy key then (Inl (ValueError ''Key is required''), [])
          else if \<not> truthy idempotency_key
            then (Inl (ValueError ''Idempotency key is required''), [])
          else
            let url = async_base_url c @ ''/restate/invocation/'' @ fmt service_name @ ''/''
                        @ fmt key @ ''/'' @ fmt handler @ ''/'' @ fmt idempotency_key
                        @ ''/attach'';
                req = \<lparr>req_method = GET, req_url = url, req_headers = [], req_json = None\<rparr>
            in (try_except
                  (and_then (and_then (sess req) aio_raise_for_status) async_decode_body)
                  async_handlers,
                [req]))"

definition async_generic_attach ::
  "async_client \<Rightarrow> string option \<Rightarrow> string option \<Rightarrow> string option \<Rightarrow> string option \<Rightarrow> outcome"
  where
  "async_generic_attach c service_name handler idempotency_key key =
     (if truthy key then async_object_attach c service_name handler key idempotency_key
      else async_service_attach c service_name handler idempotency_key)"

definition async_service_output ::
  "async_client \<Rightarrow> string option \<Rightarrow> string option \<Rightarrow> string option \<Rightarrow> outcome" where
  "async_service_output c service_name handler idempotency_key =
     (case create_async_session c of
        Inl m \<Rightarrow> (Inl (RuntimeError m), [])
      | Inr sess \<Rightarrow>
          if \<not> truthy service_name then (Inl (ValueError ''Service name is required''), [])
          else if \<not> truthy handler then (Inl (ValueError ''Handler is required''), [])
          else if \<not> truthy idempotency_key
            then (Inl (ValueError ''Idempotency key is required''), [])
          else
            let url = async_base_url c @ ''/restate/invocation/'' @ fmt service_name @ ''/''
                        @ fmt handler @ ''/'' @ fmt idempotency_key @ ''/output'';
                req = \<lparr>req_method = GET, req_url = url, req_headers = [], req_json = None\<rparr>
            in (try_except (and_then (sess req) async_decode_body) async_handlers, [req]))"

definition async_object_output ::
  "async_client \<Rightarrow> string option \<Rightarrow> string option \<Rightarrow> string option \<Rightarrow> string option \<Rightarrow> outcome"
  where
  "async_object_output c service_name handler key idempotency_key =
     (case create_async_session c of
        Inl m \<Rightarrow> (Inl (RuntimeError m), [])
      | Inr sess \<Rightarrow>
          if \<not> truthy service_name then (Inl (ValueError ''Service name is required''), [])
          else if \<not> truthy handler then (Inl (ValueError ''Handler is required''), [])
          else if \<not> truthy key then (Inl (ValueError ''Key is required''), [])
          else if \<not> truthy idempotency_key
            then (Inl (ValueError ''Idempotency key is required''), [])
          else
            let url = async_base_url c @ ''/restate/invocation/'' @ fmt service_name @ ''/''
                        @ fmt key @ ''/'' @ fmt handler @ ''/'' @ fmt idempotency_key
                        @ ''/output'';
                req = \<lparr>req_method = GET, req_url = url, req_headers = [], req_json = None\<rparr>
            in (try_except (and_then (sess req) async_decode_body) async_handlers, [req]))"

definition async_generic_output ::
  "async_client \<Rightarrow> string option \<Rightarrow> string option \<Rightarrow> string option \<Rightarrow> string option \<Rightarrow> outcome"
  where
  "async_generic_output c service_name handler idempotency_key key =
     (if truthy key then async_object_output c service_name handler key idempotency_key
      else async_service_output c service_name handler idempotency_key)"

text \<open>
  The first handler of the asynchronous delete reads \<^verbatim>\<open>e.status\<close> of every
  \<^verbatim>\<open>aiohttp.ClientError\<close>. Only a \<^verbatim>\<open>ClientResponseError\<close> has that attribute; on any
  other member of the family the read raises \<^verbatim>\<open>AttributeError\<close> inside the handler, which
  then leaves the \<^verbatim>\<open>try\<close> statement.
\<close>

definition async_delete_handlers :: "exn \<Rightarrow> exn + pyval" where
  "async_delete_handlers e =
     (if is_ClientError e then
        (case e of
           ClientResponseError s m \<Rightarrow>
             (if s = 404 then Inr PyNone else Inl (TerminalError (str_exn e)))
         | ClientPayloadError m \<Rightarrow>
             Inl (AttributeError
                    (py_repr ''ClientPayloadError'' @ '' object has no attribute ''
                       @ py_repr ''status''))
         | _ \<Rightarrow>
             Inl (AttributeError
                    (py_repr ''ClientError'' @ '' object has no attribute ''
                       @ py_repr ''status'')))
      else if is_RuntimeError e then Inl (TerminalError ''Failed to create async session'')
      else Inl (TerminalError (str_exn e)))"

definition async_delete_invocation :: "async_client \<Rightarrow> string \<Rightarrow> outcome" where
  "async_delete_invocation c invocation_id =
     (case create_async_session c of
        Inl m \<Rightarrow> (async_delete_handlers (RuntimeError m), [])
      | Inr sess \<Rightarrow>
          let url = async_base_url c @ ''/invocation/'' @ invocation_id;
              req = \<lparr>req_method = DELETE, req_url = url, req_headers = [], req_json = None\<rparr>
          in (try_except
                (and_then (and_then (sess req) aio_raise_for_status) async_decode_text)
                async_delete_handlers,
              [req]))"

subsection \<open>The asynchronous service proxy\<close>

record async_service = async_client +
  async_url :: string

definition async_service_request ::
  "async_service \<Rightarrow> pydata \<Rightarrow> (exn + response) \<times> request list" where
  "async_service_request s data =
     (case create_async_session s of
        Inl m \<Rightarrow> (Inl (RuntimeError m), [])
      | Inr sess \<Rightarrow>
          let req = (if truthy_data data
                     then \<lparr>req_method = POST, req_url = async_url s,
                           req_headers = [(''Content-Type'', ''application/json'')],
                           req_json = Some (parse_data data)\<rparr>
                     else \<lparr>req_method = GET, req_url = async_url s, req_headers = [],
                           req_json = None\<rparr>)
          in (and_then (sess req)
                (\<lambda>r. if status_code r \<noteq> 200
                     then and_then (aio_text r)
                            (\<lambda>s. Inl (ClientError
                                       (''Request failed: '' @ str_nat (status_code r))))
                     else Inr r),
              [req]))"

definition async_get_handler ::
  "async_service \<Rightarrow> string \<Rightarrow> pydata \<Rightarrow> string option \<Rightarrow> outcome" where
  "async_get_handler s name data key =
     (let s' = (if truthy key
                then s\<lparr>async_url := async_base_url s @ ''/'' @ fmt key @ ''/'' @ name\<rparr>
                else s\<lparr>async_url := async_base_url s @ ''/'' @ name\<rparr>);
          rq = async_service_request s' data
      in (and_then (fst rq) async_decode_text, snd rq))"

section \<open>Observations\<close>

text \<open>The method and the URL of each request that an operation issued, in order.\<close>

definition targets :: "outcome \<Rightarrow> (http_method \<times> string) list" where
  "targets out = map (\<lambda>r. (req_method r, req_url r)) (snd out)"

text \<open>A response that the examples below start from: status 200, an empty body (on which
  the JSON parser fails).\<close>

definition ok_response :: response where
  "ok_response =
     \<lparr>status_code = 200, reason = ''OK'', response_url = [], content_type = None,
      retry_after = False, read_error = None, decode_error = None, body_text = [],
      body_json = Inl (JSONDecodeError ''Expecting value: line 1 column 1 (char 0)'')\<rparr>"


text \<open>A response of status 200 and content type \<^verbatim>\<open>application/json\<close> whose body is not
  JSON.\<close>

definition malformed :: response where
  "malformed =
     ok_response\<lparr>content_type := Some ''application/json'', body_text := ''{oops'',
                 body_json := Inl (JSONDecodeError
                   ''Expecting property name enclosed in double quotes: line 1 column 2 (char 1)'')\<rparr>"

section \<open>Auxiliary facts\<close>

lemmas send_defs = service_send_def object_send_def generic_send_def
  async_service_send_def async_object_send_def async_generic_send_def

lemmas attach_output_defs = service_attach_def object_attach_def generic_attach_def
  service_output_def object_output_def generic_output_def
  async_service_attach_def async_object_attach_def async_generic_attach_def
  async_service_output_def async_object_output_def async_generic_output_def

lemmas control_defs = and_then_def try_except_def raise_for_status_def
  aio_raise_for_status_def

lemma digit_char_no_query: "digit_char n \<noteq> CHR ''?''"
proof -
  have "n mod 10 < 10" by simp
  then have "n mod 10 \<in> {0, 1, 2, 3, 4, 5, 6, 7, 8, 9}"
    by (simp only: insert_iff empty_iff) arith
  then show ?thesis unfolding digit_char_def by auto
qed

lemma str_nat_no_query: "CHR ''?'' \<notin> set (str_nat n)"
proof (induction n rule: str_nat.induct)
  case (1 n)
  show ?case
  proof (cases "n < 10")
    case True
    then show ?thesis
      using digit_char_no_query [of n] by (subst str_nat.simps) simp
  next
    case False
    then show ?thesis
      using digit_char_no_query [of n] 1 by (subst str_nat.simps) simp
  qed
qed

lemma str_int_no_query: "0 < d \<Longrightarrow> CHR ''?'' \<notin> set (str_int d)"
  by (simp add: str_int_def str_nat_no_query)

lemma delayed_url:
  assumes "CHR ''?'' \<notin> set pth" and "0 < d"
  shows "suffix (''?delay='' @ str_int d @ ''s'') (pth @ ''?delay='' @ str_int d @ ''s'')"
    and "count_list (pth @ ''?delay='' @ str_int d @ ''s'') CHR ''?'' = 1"
proof -
  show "suffix (''?delay='' @ str_int d @ ''s'') (pth @ ''?delay='' @ str_int d @ ''s'')"
    by (rule suffix_appendI) simp
  have "count_list pth CHR ''?'' = 0"
    using assms(1) by (simp add: count_list_0_iff)
  moreover have "count_list (str_int d) CHR ''?'' = 0"
    using str_int_no_query [OF assms(2)] by (simp add: count_list_0_iff)
  ultimately show "count_list (pth @ ''?delay='' @ str_int d @ ''s'') CHR ''?'' = 1"
    by simp
qed

lemma service_send_url:
  "map req_url (snd (service_send \<lparr>base_url = b, session = Some t\<rparr> sn h p d ik)) =
     [if 0 < d then (b @ ''/'' @ sn @ ''/'' @ h @ ''/send'') @ ''?delay='' @ str_int d @ ''s''
      else b @ ''/'' @ sn @ ''/'' @ h @ ''/send'']"
  by (simp add: service_send_def Let_def)

lemma object_send_url:
  "map req_url (snd (object_send \<lparr>base_url = b, session = Some t\<rparr> sn h k p d ik)) =
     [if 0 < d
      then (b @ ''/'' @ sn @ ''/'' @ k @ ''/'' @ h @ ''/send'') @ ''?delay='' @ str_int d @ ''s''
      else b @ ''/'' @ sn @ ''/'' @ k @ ''/'' @ h @ ''/send'']"
  by (simp add: object_send_def Let_def)

lemma async_service_send_url:
  "map req_url
     (snd (async_service_send \<lparr>async_base_url = b, create_async_session = Inr t\<rparr> sn h p d ik)) =
     [if 0 < d then (b @ ''/'' @ sn @ ''/'' @ h @ ''/send'') @ ''?delay='' @ str_int d @ ''s''
      else b @ ''/'' @ sn @ ''/'' @ h @ ''/send'']"
  by (simp add: async_service_send_def Let_def)

lemma async_object_send_url:
  "map req_url
     (snd (async_object_send \<lparr>async_base_url = b, create_async_session = Inr t\<rparr> sn h k p d ik)) =
     [if 0 < d
      then (b @ ''/'' @ sn @ ''/'' @ k @ ''/'' @ h @ ''/send'') @ ''?delay='' @ str_int d @ ''s''
      else b @ ''/'' @ sn @ ''/'' @ k @ ''/'' @ h @ ''/send'']"
  by (simp add: async_object_send_def Let_def)

lemma generic_send_cases:
  "generic_send c sn h p None d ik = service_send c sn h p d ik"
  "generic_send c sn h p (Some []) d ik = service_send c sn h p d ik"
  "generic_send c sn h p (Some (x # xs)) d ik = object_send c sn h (x # xs) p d ik"
  "async_generic_send a sn h p None d ik = async_service_send a sn h p d ik"
  "async_generic_send a sn h p (Some []) d ik = async_service_send a sn h p d ik"
  "async_generic_send a sn h p (Some (x # xs)) d ik = async_object_send a sn h (x # xs) p d ik"
  by (simp_all add: generic_send_def async_generic_send_def)

text \<open>With the delay positive, and with it zero or negative, for one URL.\<close>

lemma delay_pos_url:
  assumes "CHR ''?'' \<notin> set pth" and "0 < d"
    and "us = [if 0 < d then pth @ ''?delay='' @ str_int d @ ''s'' else pth]"
  shows "\<exists>u. us = [u] \<and> suffix (''?delay='' @ str_int d @ ''s'') u \<and> count_list u CHR ''?'' = 1"
  using assms delayed_url [of pth d] by simp

lemma delay_zero_url:
  assumes "CHR ''?'' \<notin> set pth" and "d \<le> 0"
    and "us = [if 0 < d then pth @ ''?delay='' @ str_int d @ ''s'' else pth]"
  shows "\<exists>u. us = [u] \<and> CHR ''?'' \<notin> set u"
  using assms by simp

text \<open>Substrings, and the parts of a URL.\<close>

lemma contains_Nil: "contains [] s"
  by (cases s) simp_all

lemma contains_prefix: "contains sub (sub @ ys)"
proof (cases "sub @ ys")
  case Nil
  then show ?thesis by simp
next
  case (Cons a l)
  have "prefix sub (sub @ ys)" by simp
  then show ?thesis by (simp add: Cons)
qed












lemma json_content_type:
  assumes "prefix ''application/json'' s"
  shows "json_re_match s" and "contains ''application/json'' s"
proof -
  from assms obtain rest where s: "s = ''application/json'' @ rest"
    by (auto simp add: prefix_def)
  show "json_re_match s"
    by (simp add: s json_re_match_def)
  show "contains ''application/json'' s"
    unfolding s by (rule contains_prefix)
qed

section \<open>Where the sends go\<close>

text \<open>
  Claim C1, as amended. Whenever a send issues a request (always, except on the absent
  session of the synchronous client and on an asynchronous session that cannot be created),
  it issues exactly one POST. \<^verbatim>\<open>service_send\<close>, and \<^verbatim>\<open>generic_send\<close> with an absent or an
  empty key, send it to \<^verbatim>\<open>{base_url}/{service_name}/{handler}/send\<close>; \<^verbatim>\<open>object_send\<close>,
  and \<^verbatim>\<open>generic_send\<close> with a non-empty key, send it to
  \<^verbatim>\<open>{base_url}/{service_name}/{key}/{handler}/send\<close>; the URL is followed by the delay
  query when \<^verbatim>\<open>delay_seconds > 0\<close> and by nothing otherwise. This holds in both clients.
\<close>

theorem send_targets:
  "targets (service_send \<lparr>base_url = b, session = Some t\<rparr> sn h p d ik) =
     [(POST, b @ ''/'' @ sn @ ''/'' @ h @ ''/send''
             @ (if 0 < d then ''?delay='' @ str_int d @ ''s'' else []))] \<and>
   targets (generic_send \<lparr>base_url = b, session = Some t\<rparr> sn h p None d ik) =
     [(POST, b @ ''/'' @ sn @ ''/'' @ h @ ''/send''
             @ (if 0 < d then ''?delay='' @ str_int d @ ''s'' else []))] \<and>
   targets (generic_send \<lparr>base_url = b, session = Some t\<rparr> sn h p (Some []) d ik) =
     [(POST, b @ ''/'' @ sn @ ''/'' @ h @ ''/send''
             @ (if 0 < d then ''?delay='' @ str_int d @ ''s'' else []))] \<and>
   targets (object_send \<lparr>base_url = b, session = Some t\<rparr> sn h k p d ik) =
     [(POST, b @ ''/'' @ sn @ ''/'' @ k @ ''/'' @ h @ ''/send''
             @ (if 0 < d then ''?delay='' @ str_int d @ ''s'' else []))] \<and>
   targets (generic_send \<lparr>base_url = b, session = Some t\<rparr> sn h p (Some (x # xs)) d ik) =
     [(POST, b @ ''/'' @ sn @ ''/'' @ (x # xs) @ ''/'' @ h @ ''/send''
             @ (if 0 < d then ''?delay='' @ str_int d @ ''s'' else []))] \<and>
   targets (async_service_send \<lparr>async_base_url = b, create_async_session = Inr t\<rparr>
              sn h p d ik) =
     [(POST, b @ ''/'' @ sn @ ''/'' @ h @ ''/send''
             @ (if 0 < d then ''?delay='' @ str_int d @ ''s'' else []))] \<and>
   targets (async_generic_send \<lparr>async_base_url = b, create_async_session = Inr t\<rparr>
              sn h p None d ik) =
     [(POST, b @ ''/'' @ sn @ ''/'' @ h @ ''/send''
             @ (if 0 < d then ''?delay='' @ str_int d @ ''s'' else []))] \<and>
   targets (async_generic_send \<lparr>async_base_url = b, create_async_session = Inr t\<rparr>
              sn h p (Some []) d ik) =
     [(POST, b @ ''/'' @ sn @ ''/'' @ h @ ''/send''
             @ (if 0 < d then ''?delay='' @ str_int d @ ''s'' else []))] \<and>
   targets (async_object_send \<lparr>async_base_url = b, create_async_session = Inr t\<rparr>
              sn h k p d ik) =
     [(POST, b @ ''/'' @ sn @ ''/'' @ k @ ''/'' @ h @ ''/send''
             @ (if 0 < d then ''?delay='' @ str_int d @ ''s'' else []))] \<and>
   targets (async_generic_send \<lparr>async_base_url = b, create_async_session = Inr t\<rparr>
              sn h p (Some (x # xs)) d ik) =
     [(POST, b @ ''/'' @ sn @ ''/'' @ (x # xs) @ ''/'' @ h @ ''/send''
             @ (if 0 < d then ''?delay='' @ str_int d @ ''s'' else []))]"
  by (simp add: targets_def send_defs Let_def)

text \<open>
  The claim as it was stated fails on a key that is passed but empty: \<^verbatim>\<open>generic_send\<close>
  with \<^verbatim>\<open>key=""\<close> posts to the service URL, not to the URL with the (empty) key segment.
\<close>

theorem generic_send_empty_key_counterexample:
  "targets (generic_send \<lparr>base_url = ''http://r'', session = Some (\<lambda>q. Inr ok_response)\<rparr>
              ''svc'' ''h'' (Plain (PyDict [])) (Some []) 0 None)
     = [(POST, ''http://r/svc/h/send'')] \<and>
   targets (generic_send \<lparr>base_url = ''http://r'', session = Some (\<lambda>q. Inr ok_response)\<rparr>
              ''svc'' ''h'' (Plain (PyDict [])) (Some []) 0 None)
     \<noteq> [(POST, ''http://r/svc//h/send'')]"
  by (simp add: targets_def send_defs Let_def)

section \<open>The delay query\<close>

text \<open>
  Claim C2. For every send (\<^verbatim>\<open>service_send\<close>, \<^verbatim>\<open>object_send\<close>, \<^verbatim>\<open>generic_send\<close>, in both
  clients) that issues its request: if \<^verbatim>\<open>delay_seconds > 0\<close>, the URL of the request ends
  with \<^verbatim>\<open>?delay={delay_seconds}s\<close>, and this is its only query (where the base URL and the
  names contain no \<^verbatim>\<open>?\<close>, the URL contains exactly one); if \<^verbatim>\<open>delay_seconds\<close> is zero (or
  negative), the URL has no query at all.
\<close>

theorem send_delay_query:
  assumes "CHR ''?'' \<notin> set b \<union> set sn \<union> set h \<union> set k"
  shows
   "(0 < d \<longrightarrow>
       (\<forall>out \<in> set [service_send \<lparr>base_url = b, session = Some t\<rparr> sn h p d ik,
                    object_send \<lparr>base_url = b, session = Some t\<rparr> sn h k p d ik,
                    generic_send \<lparr>base_url = b, session = Some t\<rparr> sn h p None d ik,
                    generic_send \<lparr>base_url = b, session = Some t\<rparr> sn h p (Some k) d ik,
                    async_service_send \<lparr>async_base_url = b, create_async_session = Inr t\<rparr>
                      sn h p d ik,
                    async_object_send \<lparr>async_base_url = b, create_async_session = Inr t\<rparr>
                      sn h k p d ik,
                    async_generic_send \<lparr>async_base_url = b, create_async_session = Inr t\<rparr>
                      sn h p None d ik,
                    async_generic_send \<lparr>async_base_url = b, create_async_session = Inr t\<rparr>
                      sn h p (Some k) d ik].
          \<exists>u. map req_url (snd out) = [u] \<and> suffix (''?delay='' @ str_int d @ ''s'') u \<and>
              count_list u CHR ''?'' = 1)) \<and>
    (d \<le> 0 \<longrightarrow>
       (\<forall>out \<in> set [service_send \<lparr>base_url = b, session = Some t\<rparr> sn h p d ik,
                    object_send \<lparr>base_url = b, session = Some t\<rparr> sn h k p d ik,
                    generic_send \<lparr>base_url = b, session = Some t\<rparr> sn h p None d ik,
                    generic_send \<lparr>base_url = b, session = Some t\<rparr> sn h p (Some k) d ik,
                    async_service_send \<lparr>async_base_url = b, create_async_session = Inr t\<rparr>
                      sn h p d ik,
                    async_object_send \<lparr>async_base_url = b, create_async_session = Inr t\<rparr>
                      sn h k p d ik,
                    async_generic_send \<lparr>async_base_url = b, create_async_session = Inr t\<rparr>
                      sn h p None d ik,
                    async_generic_send \<lparr>async_base_url = b, create_async_session = Inr t\<rparr>
                      sn h p (Some k) d ik].
          \<exists>u. map req_url (snd out) = [u] \<and> CHR ''?'' \<notin> set u))"
proof -
  let ?S = "\<lparr>base_url = b, session = Some t\<rparr>"
  let ?A = "\<lparr>async_base_url = b, create_async_session = Inr t\<rparr>"
  have s: "CHR ''?'' \<notin> set (b @ ''/'' @ sn @ ''/'' @ h @ ''/send'')"
    and o: "CHR ''?'' \<notin> set (b @ ''/'' @ sn @ ''/'' @ k @ ''/'' @ h @ ''/send'')"
    using assms by simp_all
  have gs: "generic_send ?S sn h p (Some k) d ik =
              (if k = [] then service_send ?S sn h p d ik else object_send ?S sn h k p d ik)"
    by (simp add: generic_send_def)
  have ags: "async_generic_send ?A sn h p (Some k) d ik =
              (if k = [] then async_service_send ?A sn h p d ik
               else async_object_send ?A sn h k p d ik)"
    by (simp add: async_generic_send_def)
  show ?thesis
  proof (intro conjI impI)
    assume d: "0 < d"
    let ?Q = "\<lambda>out. \<exists>u. map req_url (snd out) = [u] \<and>
                suffix (''?delay='' @ str_int d @ ''s'') u \<and> count_list u CHR ''?'' = 1"
    have 1: "?Q (service_send ?S sn h p d ik)"
      by (rule delay_pos_url [OF s d]) (rule service_send_url)
    have 2: "?Q (object_send ?S sn h k p d ik)"
      by (rule delay_pos_url [OF o d]) (rule object_send_url)
    have 3: "?Q (async_service_send ?A sn h p d ik)"
      by (rule delay_pos_url [OF s d]) (rule async_service_send_url)
    have 4: "?Q (async_object_send ?A sn h k p d ik)"
      by (rule delay_pos_url [OF o d]) (rule async_object_send_url)
    have 5: "?Q (generic_send ?S sn h p (Some k) d ik)"
      using 1 2 by (simp only: gs simp_thms split: if_split)
    have 6: "?Q (async_generic_send ?A sn h p (Some k) d ik)"
      using 3 4 by (simp only: ags simp_thms split: if_split)
    show "\<forall>out \<in> set [service_send ?S sn h p d ik, object_send ?S sn h k p d ik,
                    generic_send ?S sn h p None d ik, generic_send ?S sn h p (Some k) d ik,
                    async_service_send ?A sn h p d ik, async_object_send ?A sn h k p d ik,
                    async_generic_send ?A sn h p None d ik,
                    async_generic_send ?A sn h p (Some k) d ik]. ?Q out"
      using 1 2 3 4 5 6 by (simp only: list.set ball_simps generic_send_cases simp_thms)
  next
    assume d: "d \<le> 0"
    let ?Q = "\<lambda>out. \<exists>u. map req_url (snd out) = [u] \<and> CHR ''?'' \<notin> set u"
    have 1: "?Q (service_send ?S sn h p d ik)"
      by (rule delay_zero_url [OF s d]) (rule service_send_url)
    have 2: "?Q (object_send ?S sn h k p d ik)"
      by (rule delay_zero_url [OF o d]) (rule object_send_url)
    have 3: "?Q (async_service_send ?A sn h p d ik)"
      by (rule delay_zero_url [OF s d]) (rule async_service_send_url)
    have 4: "?Q (async_object_send ?A sn h k p d ik)"
      by (rule delay_zero_url [OF o d]) (rule async_object_send_url)
    have 5: "?Q (generic_send ?S sn h p (Some k) d ik)"
      using 1 2 by (simp only: gs simp_thms split: if_split)
    have 6: "?Q (async_generic_send ?A sn h p (Some k) d ik)"
      using 3 4 by (simp only: ags simp_thms split: if_split)
    show "\<forall>out \<in> set [service_send ?S sn h p d ik, object_send ?S sn h k p d ik,
                    generic_send ?S sn h p None d ik, generic_send ?S sn h p (Some k) d ik,
                    async_service_send ?A sn h p d ik, async_object_send ?A sn h k p d ik,
                    async_generic_send ?A sn h p None d ik,
                    async_generic_send ?A sn h p (Some k) d ik]. ?Q out"
      using 1 2 3 4 5 6 by (simp only: list.set ball_simps generic_send_cases simp_thms)
  qed
qed

theorem send_delay_query_witness:
  "CHR ''?'' \<notin> set ''http://r'' \<union> set ''orders'' \<union> set ''create'' \<union> set ''k1'' \<and>
   (0::int) < 10 \<and>
   (\<exists>u. map req_url
          (snd (object_send \<lparr>base_url = ''http://r'', session = Some (\<lambda>q. Inr ok_response)\<rparr>
                  ''orders'' ''create'' ''k1'' (Plain (PyDict [])) 10 None)) = [u] \<and>
        suffix ''?delay=10s'' u \<and> count_list u CHR ''?'' = 1) \<and>
   (0::int) \<le> 0 \<and>
   (\<exists>u. map req_url
          (snd (async_service_send
                  \<lparr>async_base_url = ''http://r'',
                   create_async_session = Inr (\<lambda>q. Inr ok_response)\<rparr>
                  ''orders'' ''create'' (Plain (PyDict [])) 0 None)) = [u] \<and>
        CHR ''?'' \<notin> set u)"
proof -
  have hyp: "CHR ''?'' \<notin> set ''http://r'' \<union> set ''orders'' \<union> set ''create'' \<union> set ''k1''"
    by simp
  have ten: "str_int 10 = ''10''"
    by (simp add: str_int_def str_nat.simps digit_char_def)
  have pos: "\<exists>u. map req_url
          (snd (object_send \<lparr>base_url = ''http://r'', session = Some (\<lambda>q. Inr ok_response)\<rparr>
                  ''orders'' ''create'' ''k1'' (Plain (PyDict [])) 10 None)) = [u] \<and>
        suffix ''?delay=10s'' u \<and> count_list u CHR ''?'' = 1"
    using send_delay_query [OF hyp, of 10 "\<lambda>q. Inr ok_response" "Plain (PyDict [])" None]
    by (simp add: ten)
  have zero: "\<exists>u. map req_url
          (snd (async_service_send
                  \<lparr>async_base_url = ''http://r'',
                   create_async_session = Inr (\<lambda>q. Inr ok_response)\<rparr>
                  ''orders'' ''create'' (Plain (PyDict [])) 0 None)) = [u] \<and>
        CHR ''?'' \<notin> set u"
    using send_delay_query [OF hyp, of 0 "\<lambda>q. Inr ok_response" "Plain (PyDict [])" None]
    by simp
  show ?thesis using hyp pos zero by simp
qed

section \<open>Validation in attach and output\<close>

lemma validation_sync:
  assumes "\<not> truthy sn \<or> \<not> truthy h \<or> \<not> truthy ik"
  shows "\<exists>m. service_attach \<lparr>base_url = b, session = Some t\<rparr> sn h ik = (Inl (ValueError m), [])"
    and "\<exists>m. service_output \<lparr>base_url = b, session = Some t\<rparr> sn h ik = (Inl (ValueError m), [])"
    and "\<exists>m. generic_attach \<lparr>base_url = b, session = Some t\<rparr> sn h ik key
              = (Inl (ValueError m), [])"
    and "\<exists>m. generic_output \<lparr>base_url = b, session = Some t\<rparr> sn h ik key
              = (Inl (ValueError m), [])"
    and "snd (service_attach c sn h ik) = []"
    and "snd (service_output c sn h ik) = []"
    and "snd (generic_attach c sn h ik key) = []"
    and "snd (generic_output c sn h ik key) = []"
  using assms by (auto simp add: attach_output_defs split: option.splits)

lemma validation_async:
  assumes "\<not> truthy sn \<or> \<not> truthy h \<or> \<not> truthy ik"
  shows "\<exists>m. async_service_attach \<lparr>async_base_url = b, create_async_session = Inr t\<rparr> sn h ik
              = (Inl (ValueError m), [])"
    and "\<exists>m. async_service_output \<lparr>async_base_url = b, create_async_session = Inr t\<rparr> sn h ik
              = (Inl (ValueError m), [])"
    and "\<exists>m. async_generic_attach \<lparr>async_base_url = b, create_async_session = Inr t\<rparr>
                sn h ik key = (Inl (ValueError m), [])"
    and "\<exists>m. async_generic_output \<lparr>async_base_url = b, create_async_session = Inr t\<rparr>
                sn h ik key = (Inl (ValueError m), [])"
    and "snd (async_service_attach a sn h ik) = []"
    and "snd (async_service_output a sn h ik) = []"
    and "snd (async_generic_attach a sn h ik key) = []"
    and "snd (async_generic_output a sn h ik key) = []"
  using assms by (auto simp add: attach_output_defs split: sum.splits)

lemma validation_object:
  assumes "\<not> truthy sn \<or> \<not> truthy h \<or> \<not> truthy key \<or> \<not> truthy ik"
  shows "\<exists>m. object_attach \<lparr>base_url = b, session = Some t\<rparr> sn h key ik
              = (Inl (ValueError m), [])"
    and "\<exists>m. object_output \<lparr>base_url = b, session = Some t\<rparr> sn h key ik
              = (Inl (ValueError m), [])"
    and "\<exists>m. async_object_attach \<lparr>async_base_url = b, create_async_session = Inr t\<rparr>
                sn h key ik = (Inl (ValueError m), [])"
    and "\<exists>m. async_object_output \<lparr>async_base_url = b, create_async_session = Inr t\<rparr>
                sn h key ik = (Inl (ValueError m), [])"
    and "snd (object_attach c sn h key ik) = []"
    and "snd (object_output c sn h key ik) = []"
    and "snd (async_object_attach a sn h key ik) = []"
    and "snd (async_object_output a sn h key ik) = []"
  using assms by (auto simp add: attach_output_defs split: option.splits sum.splits)

text \<open>
  Claim C3, as amended. For every call to attach or output (service, object or generic
  form, synchronous or asynchronous) in which \<^verbatim>\<open>service_name\<close>, \<^verbatim>\<open>handler\<close> or
  \<^verbatim>\<open>idempotency_key\<close> is empty or missing (for the object variants: or \<^verbatim>\<open>key\<close> is), no
  network request is issued, whatever the state of the session; and whenever the client has
  its session (the synchronous session is present, the asynchronous one can be created) the
  call raises an input-validation error.
\<close>

theorem attach_output_validation:
  "(\<not> truthy sn \<or> \<not> truthy h \<or> \<not> truthy ik \<longrightarrow>
      (\<forall>out \<in> set [service_attach \<lparr>base_url = b, session = Some t\<rparr> sn h ik,
                   service_output \<lparr>base_url = b, session = Some t\<rparr> sn h ik,
                   generic_attach \<lparr>base_url = b, session = Some t\<rparr> sn h ik key,
                   generic_output \<lparr>base_url = b, session = Some t\<rparr> sn h ik key,
                   async_service_attach \<lparr>async_base_url = b, create_async_session = Inr t\<rparr>
                     sn h ik,
                   async_service_output \<lparr>async_base_url = b, create_async_session = Inr t\<rparr>
                     sn h ik,
                   async_generic_attach \<lparr>async_base_url = b, create_async_session = Inr t\<rparr>
                     sn h ik key,
                   async_generic_output \<lparr>async_base_url = b, create_async_session = Inr t\<rparr>
                     sn h ik key].
         \<exists>m. out = (Inl (ValueError m), [])) \<and>
      (\<forall>out \<in> set [service_attach c sn h ik, service_output c sn h ik,
                   generic_attach c sn h ik key, generic_output c sn h ik key,
                   async_service_attach a sn h ik, async_service_output a sn h ik,
                   async_generic_attach a sn h ik key, async_generic_output a sn h ik key].
         snd out = [])) \<and>
   (\<not> truthy sn \<or> \<not> truthy h \<or> \<not> truthy key \<or> \<not> truthy ik \<longrightarrow>
      (\<forall>out \<in> set [object_attach \<lparr>base_url = b, session = Some t\<rparr> sn h key ik,
                   object_output \<lparr>base_url = b, session = Some t\<rparr> sn h key ik,
                   async_object_attach \<lparr>async_base_url = b, create_async_session = Inr t\<rparr>
                     sn h key ik,
                   async_object_output \<lparr>async_base_url = b, create_async_session = Inr t\<rparr>
                     sn h key ik].
         \<exists>m. out = (Inl (ValueError m), [])) \<and>
      (\<forall>out \<in> set [object_attach c sn h key ik, object_output c sn h key ik,
                   async_object_attach a sn h key ik, async_object_output a sn h key ik].
         snd out = []))"
proof (intro conjI impI)
  assume H: "\<not> truthy sn \<or> \<not> truthy h \<or> \<not> truthy ik"
  show "\<forall>out \<in> set [service_attach \<lparr>base_url = b, session = Some t\<rparr> sn h ik,
                   service_output \<lparr>base_url = b, session = Some t\<rparr> sn h ik,
                   generic_attach \<lparr>base_url = b, session = Some t\<rparr> sn h ik key,
                   generic_output \<lparr>base_url = b, session = Some t\<rparr> sn h ik key,
                   async_service_attach \<lparr>async_base_url = b, create_async_session = Inr t\<rparr>
                     sn h ik,
                   async_service_output \<lparr>async_base_url = b, create_async_session = Inr t\<rparr>
                     sn h ik,
                   async_generic_attach \<lparr>async_base_url = b, create_async_session = Inr t\<rparr>
                     sn h ik key,
                   async_generic_output \<lparr>async_base_url = b, create_async_session = Inr t\<rparr>
                     sn h ik key].
         \<exists>m. out = (Inl (ValueError m), [])"
    using validation_sync(1-4) [OF H, of b t] validation_async(1-4) [OF H, of b t]
    by (simp only: list.set ball_simps simp_thms)
  show "\<forall>out \<in> set [service_attach c sn h ik, service_output c sn h ik,
                   generic_attach c sn h ik key, generic_output c sn h ik key,
                   async_service_attach a sn h ik, async_service_output a sn h ik,
                   async_generic_attach a sn h ik key, async_generic_output a sn h ik key].
         snd out = []"
    using validation_sync(5-8) [OF H] validation_async(5-8) [OF H]
    by (simp only: list.set ball_simps simp_thms)
next
  assume H: "\<not> truthy sn \<or> \<not> truthy h \<or> \<not> truthy key \<or> \<not> truthy ik"
  show "\<forall>out \<in> set [object_attach \<lparr>base_url = b, session = Some t\<rparr> sn h key ik,
                   object_output \<lparr>base_url = b, session = Some t\<rparr> sn h key ik,
                   async_object_attach \<lparr>async_base_url = b, create_async_session = Inr t\<rparr>
                     sn h key ik,
                   async_object_output \<lparr>async_base_url = b, create_async_session = Inr t\<rparr>
                     sn h key ik].
         \<exists>m. out = (Inl (ValueError m), [])"
    using validation_object(1-4) [OF H, of b t]
    by (simp only: list.set ball_simps simp_thms)
  show "\<forall>out \<in> set [object_attach c sn h key ik, object_output c sn h key ik,
                   async_object_attach a sn h key ik, async_object_output a sn h key ik].
         snd out = []"
    using validation_object(5-8) [OF H]
    by (simp only: list.set ball_simps simp_thms)
qed

theorem attach_output_validation_witness:
  "\<not> truthy (Some []) \<and>
   service_attach \<lparr>base_url = ''http://r'', session = Some (\<lambda>q. Inr ok_response)\<rparr>
     (Some []) (Some ''getTotal'') (Some ''idem-123'')
     = (Inl (ValueError ''Service name is required''), []) \<and>
   \<not> truthy None \<and>
   snd (async_object_output
          \<lparr>async_base_url = ''http://r'', create_async_session = Inr (\<lambda>q. Inr ok_response)\<rparr>
          (Some []) (Some ''getTotal'') None (Some ''idem-123'')) = []"
proof -
  note w = attach_output_validation
    [of "Some []" "Some ''getTotal''" "Some ''idem-123''" "''http://r''"
        "\<lambda>q. Inr ok_response" None
        "\<lparr>base_url = ''http://r'', session = Some (\<lambda>q. Inr ok_response)\<rparr>"
        "\<lparr>async_base_url = ''http://r'', create_async_session = Inr (\<lambda>q. Inr ok_response)\<rparr>"]
  have H: "\<not> truthy (Some []) \<or> \<not> truthy (Some ''getTotal'') \<or> \<not> truthy (Some ''idem-123'')"
    by simp
  have H': "\<not> truthy (Some []) \<or> \<not> truthy (Some ''getTotal'') \<or> \<not> truthy None
      \<or> \<not> truthy (Some ''idem-123'')"
    by simp
  from w H obtain m where
    m: "service_attach \<lparr>base_url = ''http://r'', session = Some (\<lambda>q. Inr ok_response)\<rparr>
          (Some []) (Some ''getTotal'') (Some ''idem-123'') = (Inl (ValueError m), [])"
    by auto
  have "m = ''Service name is required''"
    using m by (simp add: service_attach_def)
  with m have 1: "service_attach \<lparr>base_url = ''http://r'', session = Some (\<lambda>q. Inr ok_response)\<rparr>
     (Some []) (Some ''getTotal'') (Some ''idem-123'')
     = (Inl (ValueError ''Service name is required''), [])"
    by simp
  from w H' have 2: "snd (async_object_output
          \<lparr>async_base_url = ''http://r'', create_async_session = Inr (\<lambda>q. Inr ok_response)\<rparr>
          (Some []) (Some ''getTotal'') None (Some ''idem-123'')) = []"
    by simp
  show ?thesis using H H' 1 2 by simp
qed

text \<open>
  The claim as it was stated fails in the synchronous client when the session is absent:
  the check of the session comes before the validation, so the call returns \<^verbatim>\<open>None\<close>
  instead of raising.
\<close>

theorem service_attach_absent_session_counterexample:
  "service_attach \<lparr>base_url = ''http://r'', session = None\<rparr>
     (Some []) (Some ''getTotal'') (Some ''idem-123'') = (Inr PyNone, [])"
  by (simp add: service_attach_def)

section \<open>Deleting an invocation\<close>

text \<open>
  Claim C4. For every invocation id, when the server answers the DELETE request of
  \<^verbatim>\<open>delete_invocation\<close> with status 404, the operation returns \<^verbatim>\<open>None\<close> and does not
  raise, in the synchronous and in the asynchronous client.
\<close>

theorem delete_invocation_not_found:
  assumes "t \<lparr>req_method = DELETE, req_url = b @ ''/invocation/'' @ iid, req_headers = [],
              req_json = None\<rparr> = Inr r"
    and "status_code r = 404"
  shows "fst (delete_invocation \<lparr>base_url = b, session = Some t\<rparr> iid) = Inr PyNone \<and>
         fst (async_delete_invocation \<lparr>async_base_url = b, create_async_session = Inr t\<rparr> iid)
           = Inr PyNone"
  using assms
  by (simp add: delete_invocation_def async_delete_invocation_def Let_def control_defs
        delete_handler_def async_delete_handlers_def)

theorem delete_invocation_not_found_witness:
  "(\<lambda>q. Inr (ok_response\<lparr>status_code := 404\<rparr>))
     \<lparr>req_method = DELETE, req_url = ''http://r'' @ ''/invocation/'' @ ''inv_1'',
      req_headers = [], req_json = None\<rparr> = (Inr (ok_response\<lparr>status_code := 404\<rparr>) :: exn + response) \<and>
   status_code (ok_response\<lparr>status_code := 404\<rparr>) = 404 \<and>
   fst (delete_invocation
          \<lparr>base_url = ''http://r'',
           session = Some (\<lambda>q. Inr (ok_response\<lparr>status_code := 404\<rparr>))\<rparr> ''inv_1'') = Inr PyNone \<and>
   fst (async_delete_invocation
          \<lparr>async_base_url = ''http://r'',
           create_async_session = Inr (\<lambda>q. Inr (ok_response\<lparr>status_code := 404\<rparr>))\<rparr> ''inv_1'')
     = Inr PyNone"
  using delete_invocation_not_found
    [of "\<lambda>q. Inr (ok_response\<lparr>status_code := 404\<rparr>)" "''http://r''" "''inv_1''"
        "ok_response\<lparr>status_code := 404\<rparr>"]
  by simp




section \<open>Dynamic dispatch\<close>

text \<open>
  Claim C6, as amended. For every dynamic call through the asynchronous service proxy
  whose response has status 200 and a \<^verbatim>\<open>Content-Type\<close> header that begins with
  \<^verbatim>\<open>application/json\<close> (in any letter case), and whose body is read completely, is text
  in the encoding of the response, is not blank and is malformed JSON, the call returns the
  raw text of the body instead of raising the decode error.
\<close>

theorem async_get_handler_malformed_json:
  assumes "\<forall>q \<in> set (snd (async_get_handler
              \<lparr>async_base_url = b, create_async_session = Inr t, async_url = u\<rparr>
              name data key)). t q = Inr r"
    and "status_code r = 200"
    and "content_type r = Some ct"
    and "prefix ''application/json'' (lower ct)"
    and "read_error r = None"
    and "decode_error r = None"
    and "\<not> blank (body_text r)"
    and "body_json r = Inl (JSONDecodeError m)"
  shows "fst (async_get_handler
                \<lparr>async_base_url = b, create_async_session = Inr t, async_url = u\<rparr>
                name data key) = Inr (PyStr (body_text r))"
proof -
  let ?S = "\<lparr>async_base_url = b, create_async_session = Inr t, async_url = u\<rparr>"
  let ?u = "if truthy key then b @ ''/'' @ fmt key @ ''/'' @ name else b @ ''/'' @ name"
  let ?q = "if truthy_data data
            then \<lparr>req_method = POST, req_url = ?u,
                  req_headers = [(''Content-Type'', ''application/json'')],
                  req_json = Some (parse_data data)\<rparr>
            else \<lparr>req_method = GET, req_url = ?u, req_headers = [], req_json = None\<rparr>"
  have sent: "snd (async_get_handler ?S name data key) = [?q]"
    by (simp add: async_get_handler_def async_service_request_def Let_def)
  have answer: "t ?q = Inr r"
    using assms(1) unfolding sent by simp
  have "fst (async_get_handler ?S name data key) =
          and_then (and_then (t ?q)
            (\<lambda>r. if status_code r \<noteq> 200
                 then and_then (aio_text r)
                        (\<lambda>s. Inl (ClientError
                                   (''Request failed: '' @ str_nat (status_code r))))
                 else Inr r)) async_decode_text"
    by (simp add: async_get_handler_def async_service_request_def Let_def)
  also have "\<dots> = async_decode_text r"
    unfolding answer using assms(2) by (simp add: and_then_def)
  also have "\<dots> = json_or_text r"
    using json_content_type(2) [OF assms(4)] assms(3)
    by (simp add: async_decode_text_def is_json_response_def)
  also have "\<dots> = and_then (aio_text r) (\<lambda>s. Inr (PyStr s))"
    using json_content_type(1) [OF assms(4)] assms(3,5,6,7,8)
    by (simp add: json_or_text_def aio_json_def try_except_def Let_def)
  also have "\<dots> = Inr (PyStr (body_text r))"
    using assms(5,6) by (simp add: aio_text_def and_then_def)
  finally show ?thesis .
qed

theorem async_get_handler_malformed_json_witness:
  "status_code malformed = 200 \<and>
   content_type malformed = Some ''application/json'' \<and>
   prefix ''application/json'' (lower ''application/json'') \<and>
   read_error malformed = None \<and> decode_error malformed = None \<and>
   \<not> blank (body_text malformed) \<and>
   fst (async_get_handler
          \<lparr>async_base_url = ''http://r/cart'',
           create_async_session = Inr (\<lambda>q. Inr malformed), async_url = []\<rparr>
          ''getTotal'' (Plain PyNone) (Some ''user-42'')) = Inr (PyStr ''{oops'')"
proof -
  have 1: "status_code malformed = 200"
    and 2: "content_type malformed = Some ''application/json''"
    and 4: "read_error malformed = None"
    and 5: "decode_error malformed = None"
    and 7: "body_json malformed = Inl (JSONDecodeError
              ''Expecting property name enclosed in double quotes: line 1 column 2 (char 1)'')"
    and body: "body_text malformed = ''{oops''"
    by (simp_all add: malformed_def ok_response_def)
  have 3: "prefix ''application/json'' (lower ''application/json'')"
    by (simp add: lower_def lower_char_def)
  have 6: "\<not> blank (body_text malformed)"
    by (simp add: body blank_def)
  have 0: "\<forall>q \<in> set (snd (async_get_handler
              \<lparr>async_base_url = ''http://r/cart'',
               create_async_session = Inr (\<lambda>q. Inr malformed), async_url = []\<rparr>
              ''getTotal'' (Plain PyNone) (Some ''user-42''))).
            (\<lambda>q. Inr malformed) q = (Inr malformed :: exn + response)"
    by simp
  have "fst (async_get_handler
          \<lparr>async_base_url = ''http://r/cart'',
           create_async_session = Inr (\<lambda>q. Inr malformed), async_url = []\<rparr>
          ''getTotal'' (Plain PyNone) (Some ''user-42''))
        = Inr (PyStr (body_text malformed))"
    by (rule async_get_handler_malformed_json [OF 0 1 2 3 4 5 6 7])
  then show ?thesis using 1 2 3 4 5 6 body by simp
qed

text \<open>
  The claim as it was stated fails in the synchronous service proxy, which decodes every
  non-empty body with \<^verbatim>\<open>response.json()\<close> whatever the content type, outside any
  \<^verbatim>\<open>try\<close>: the decode error is raised.
\<close>

theorem get_handler_malformed_json_counterexample:
  "fst (get_handler
          \<lparr>base_url = ''http://r/cart'',
           session = Some (create_session (\<lambda>q. Inr malformed)), url = []\<rparr>
          ''getTotal'' (Plain PyNone) (Some ''user-42''))
     = Inl (RequestsJSONDecodeError
              ''Expecting property name enclosed in double quotes: line 1 column 2 (char 1)'')"
  by (simp add: get_handler_def service_request_def create_session_def is_retry_def
        status_forcelist_def retry_after_status_codes_def Let_def and_then_def
        decode_body_def requests_json_def malformed_def ok_response_def)

text \<open>
  Claim C8, as amended. For every attribute name and every payload and key, a dynamic call
  through a service proxy that has its session issues exactly one request: to
  \<^verbatim>\<open>{base}/{name}\<close> when the key is absent or empty and to \<^verbatim>\<open>{base}/{key}/{name}\<close> when
  the key is non-empty, as a POST when the payload is truthy (given and not empty) and as a
  GET otherwise, in the synchronous and in the asynchronous proxy.
\<close>

theorem get_handler_target:
  "targets (get_handler \<lparr>base_url = b, session = Some t, url = u\<rparr> name data key) =
     [(if truthy_data data then POST else GET,
       if truthy key then b @ ''/'' @ fmt key @ ''/'' @ name else b @ ''/'' @ name)] \<and>
   targets (async_get_handler
              \<lparr>async_base_url = b, create_async_session = Inr t, async_url = u\<rparr>
              name data key) =
     [(if truthy_data data then POST else GET,
       if truthy key then b @ ''/'' @ fmt key @ ''/'' @ name else b @ ''/'' @ name)] \<and>
   truthy None = False \<and> truthy (Some []) = False \<and> truthy (Some (x # xs)) = True \<and>
   fmt (Some (x # xs)) = x # xs \<and>
   truthy_data (Plain PyNone) = False \<and> truthy_data (Plain (PyDict [])) = False \<and>
   truthy_data (Plain (PyDict (kv # kvs))) = True \<and> truthy_data (Model v) = True"
  by (simp add: targets_def get_handler_def service_request_def async_get_handler_def
        async_service_request_def Let_def)

text \<open>
  The claim as it was stated fails on a key and a payload that are passed but empty: the
  call is a GET to \<^verbatim>\<open>{base}/{name}\<close>, not a POST to \<^verbatim>\<open>{base}/{key}/{name}\<close>.
\<close>

theorem get_handler_empty_key_counterexample:
  "targets (get_handler
              \<lparr>base_url = ''http://r/cart'', session = Some (\<lambda>q. Inr ok_response), url = []\<rparr>
              ''getTotal'' (Plain (PyDict [])) (Some []))
     = [(GET, ''http://r/cart/getTotal'')] \<and>
   targets (get_handler
              \<lparr>base_url = ''http://r/cart'', session = Some (\<lambda>q. Inr ok_response), url = []\<rparr>
              ''getTotal'' (Plain (PyDict [])) (Some []))
     \<noteq> [(POST, ''http://r/cart//getTotal'')]"
  by (simp add: targets_def get_handler_def service_request_def Let_def)

section \<open>The generic forms\<close>

text \<open>
  Claim C7, as amended. Each of send, attach and output has a generic form, and for all
  arguments the generic form returns exactly what the object form returns when the key is
  non-empty, and exactly what the service form returns when the key is absent or empty, in
  both clients. (Delete has the single form \<^verbatim>\<open>delete_invocation\<close>, which takes an
  invocation id and no key.)
\<close>

theorem generic_dispatch:
  "generic_send c sn h p key d ik =
     (case key of
        Some (x # xs) \<Rightarrow> object_send c sn h (x # xs) p d ik
      | _ \<Rightarrow> service_send c sn h p d ik) \<and>
   generic_attach c osn oh oik key =
     (case key of
        Some (x # xs) \<Rightarrow> object_attach c osn oh (Some (x # xs)) oik
      | _ \<Rightarrow> service_attach c osn oh oik) \<and>
   generic_output c osn oh oik key =
     (case key of
        Some (x # xs) \<Rightarrow> object_output c osn oh (Some (x # xs)) oik
      | _ \<Rightarrow> service_output c osn oh oik) \<and>
   async_generic_send a sn h p key d ik =
     (case key of
        Some (x # xs) \<Rightarrow> async_object_send a sn h (x # xs) p d ik
      | _ \<Rightarrow> async_service_send a sn h p d ik) \<and>
   async_generic_attach a osn oh oik key =
     (case key of
        Some (x # xs) \<Rightarrow> async_object_attach a osn oh (Some (x # xs)) oik
      | _ \<Rightarrow> async_service_attach a osn oh oik) \<and>
   async_generic_output a osn oh oik key =
     (case key of
        Some (x # xs) \<Rightarrow> async_object_output a osn oh (Some (x # xs)) oik
      | _ \<Rightarrow> async_service_output a osn oh oik)"
  by (simp add: generic_send_def generic_attach_def generic_output_def
        async_generic_send_def async_generic_attach_def async_generic_output_def
        split: option.split list.split)

text \<open>
  The claim as it was stated fails on a key that is present but empty: \<^verbatim>\<open>generic_attach\<close>
  returns what the service form returns (here the decoded answer of its GET), while the
  object form with that key raises its validation error.
\<close>

theorem generic_attach_empty_key_counterexample:
  "generic_attach \<lparr>base_url = ''http://r'', session = Some (\<lambda>q. Inr ok_response)\<rparr>
     (Some ''cart'') (Some ''getTotal'') (Some ''idem-123'') (Some [])
   \<noteq> object_attach \<lparr>base_url = ''http://r'', session = Some (\<lambda>q. Inr ok_response)\<rparr>
       (Some ''cart'') (Some ''getTotal'') (Some []) (Some ''idem-123'')"
  by (simp add: generic_attach_def service_attach_def object_attach_def Let_def)

text \<open>
  Claim C10. In every call to \<^verbatim>\<open>generic_send\<close>, \<^verbatim>\<open>generic_attach\<close> or \<^verbatim>\<open>generic_output\<close>
  with the empty string as key, the call is the service (no-key) variant, and so equal to
  the call with the key absent; no key-validation error is raised: with the other arguments
  valid the service request is issued, where the object variant given the same empty key
  raises \<^verbatim>\<open>Key is required\<close>. This holds in both clients.
\<close>

theorem generic_empty_key:
  "generic_send c sn h p (Some []) d ik = service_send c sn h p d ik \<and>
   generic_send c sn h p (Some []) d ik = generic_send c sn h p None d ik \<and>
   generic_attach c osn oh oik (Some []) = service_attach c osn oh oik \<and>
   generic_attach c osn oh oik (Some []) = generic_attach c osn oh oik None \<and>
   generic_output c osn oh oik (Some []) = service_output c osn oh oik \<and>
   generic_output c osn oh oik (Some []) = generic_output c osn oh oik None \<and>
   async_generic_send a sn h p (Some []) d ik = async_service_send a sn h p d ik \<and>
   async_generic_send a sn h p (Some []) d ik = async_generic_send a sn h p None d ik \<and>
   async_generic_attach a osn oh oik (Some []) = async_service_attach a osn oh oik \<and>
   async_generic_attach a osn oh oik (Some []) = async_generic_attach a osn oh oik None \<and>
   async_generic_output a osn oh oik (Some []) = async_service_output a osn oh oik \<and>
   async_generic_output a osn oh oik (Some []) = async_generic_output a osn oh oik None \<and>
   targets (generic_attach \<lparr>base_url = b, session = Some t\<rparr>
              (Some (s # ss)) (Some (e # es)) (Some (i # is)) (Some [])) =
     [(GET, b @ ''/restate/invocation/'' @ (s # ss) @ ''/'' @ (e # es) @ ''/'' @ (i # is)
            @ ''/attach'')] \<and>
   targets (async_generic_output \<lparr>async_base_url = b, create_async_session = Inr t\<rparr>
              (Some (s # ss)) (Some (e # es)) (Some (i # is)) (Some [])) =
     [(GET, b @ ''/restate/invocation/'' @ (s # ss) @ ''/'' @ (e # es) @ ''/'' @ (i # is)
            @ ''/output'')] \<and>
   object_attach \<lparr>base_url = b, session = Some t\<rparr>
     (Some (s # ss)) (Some (e # es)) (Some []) (Some (i # is)) =
     (Inl (ValueError ''Key is required''), [])"
  by (simp add: targets_def generic_send_def generic_attach_def generic_output_def
        async_generic_send_def async_generic_attach_def async_generic_output_def
        service_attach_def async_service_output_def object_attach_def Let_def)

section \<open>The absent session of the synchronous client\<close>

text \<open>
  Claim C9. When the session of the synchronous client is absent (\<^verbatim>\<open>None\<close>, as under a
  test harness), every send, attach and output returns \<^verbatim>\<open>None\<close> without raising and
  without a request; \<^verbatim>\<open>delete_invocation\<close> has no such check and fails with an
  \<^verbatim>\<open>AttributeError\<close>, which none of its handlers catches, before any request: it is the
  only one of the operations without the guard.
\<close>

theorem absent_session:
  "service_send \<lparr>base_url = b, session = None\<rparr> sn h p d ik = (Inr PyNone, []) \<and>
   object_send \<lparr>base_url = b, session = None\<rparr> sn h k p d ik = (Inr PyNone, []) \<and>
   generic_send \<lparr>base_url = b, session = None\<rparr> sn h p key d ik = (Inr PyNone, []) \<and>
   service_attach \<lparr>base_url = b, session = None\<rparr> osn oh oik = (Inr PyNone, []) \<and>
   object_attach \<lparr>base_url = b, session = None\<rparr> osn oh key oik = (Inr PyNone, []) \<and>
   generic_attach \<lparr>base_url = b, session = None\<rparr> osn oh oik key = (Inr PyNone, []) \<and>
   service_output \<lparr>base_url = b, session = None\<rparr> osn oh oik = (Inr PyNone, []) \<and>
   object_output \<lparr>base_url = b, session = None\<rparr> osn oh key oik = (Inr PyNone, []) \<and>
   generic_output \<lparr>base_url = b, session = None\<rparr> osn oh oik key = (Inr PyNone, []) \<and>
   delete_invocation \<lparr>base_url = b, session = None\<rparr> iid =
     (Inl (AttributeError
            (py_repr ''NoneType'' @ '' object has no attribute '' @ py_repr ''delete'')), [])"
  by (simp add: service_send_def object_send_def generic_send_def service_attach_def
        object_attach_def generic_attach_def service_output_def object_output_def
        generic_output_def delete_invocation_def delete_handler_def)


end
